theory Spec2Isabelle
  imports Main "HOL-Library.Word"
begin

section \<open>Representation of imports (include/swift/AST/Import.h)\<close>

text \<open>
  A shallow embedding of the import paths, imported modules and attributed imports of
  \<^verbatim>\<open>Import.h\<close>. The embedding is of a build with assertions enabled: an
  \<^verbatim>\<open>assert\<close> that fails is the value \<open>Inl (AssertionFailure msg)\<close>, and
  every operation that can reach one returns \<open>error + 'a\<close>.
\<close>

datatype error = AssertionFailure string

subsection \<open>Collaborating types\<close>

text \<open>
  Modelled from the spec: \<^verbatim>\<open>Identifier\<close> (swift/AST/Identifier.h is not under src/).
  The spec calls it an interned name; two identifiers of one context are the same
  pointer exactly when their text is the same, so an identifier is its text.
\<close>

datatype Identifier = Identifier string

text \<open>
  Modelled from the spec: \<^verbatim>\<open>SourceLoc\<close> (swift/Basic/SourceLoc.h is not under src/),
  an opaque position token. The default-constructed \<^verbatim>\<open>SourceLoc()\<close> is the
  invalid (unset) location.
\<close>

datatype SourceLoc = SourceLoc_invalid | SourceLoc_at nat

text \<open>
  Modelled from the spec: \<^verbatim>\<open>Located<T>\<close> (swift/Basic/Located.h is not under src/),
  the pair of an item and its source location. Its equality compares both fields
  (the source's comment on \<^verbatim>\<open>operator==\<close> of a path: "precisely equal, including
  SourceLocs").
\<close>

record 'a Located =
  Item :: 'a
  Loc :: SourceLoc

definition Located_eq :: "'a Located \<Rightarrow> 'a Located \<Rightarrow> bool" where
  "Located_eq lhs rhs = (Item lhs = Item rhs \<and> Loc lhs = Loc rhs)"

text \<open>
  Modelled from the spec: \<^verbatim>\<open>DeclName\<close> and \<^verbatim>\<open>DeclName::matchesRef\<close>
  (swift/AST/Identifier.h is not under src/). The spec only says that a one-element
  access path matches "a name equal to its single identifier, and no others"; a name is
  therefore what the converting constructor \<^verbatim>\<open>DeclName(Identifier)\<close> builds, and
  \<^verbatim>\<open>matchesRef\<close> is equality of names.
\<close>

datatype DeclName = DeclName Identifier

definition matchesRef :: "DeclName \<Rightarrow> DeclName \<Rightarrow> bool" where
  "matchesRef this refName = (this = refName)"

text \<open>A \<^verbatim>\<open>ModuleDecl *\<close> is the address it holds; 0 is the null pointer.\<close>

type_synonym ModuleDecl_ptr = "64 word"

subsection \<open>llvm::ArrayRef and std::equal\<close>

text \<open>
  \<^verbatim>\<open>llvm::ArrayRef<T>\<close> is a non-owning view of a contiguous sequence; the properties
  below depend on its elements only, so a view is the list of the elements it sees. The slicing
  operations are LLVM's (llvm/ADT/ArrayRef.h), with their assertions:
  \<^verbatim>\<open>
    ArrayRef<T> drop_front(size_t N = 1) const {
      assert(size() >= N && "Dropping more elements than exist");
      return slice(N, size() - N); }
    ArrayRef<T> drop_back(size_t N = 1) const {
      assert(size() >= N && "Dropping more elements than exist");
      return slice(0, size() - N); }
    ArrayRef<T> take_front(size_t N = 1) const {
      if (N >= size()) return *this;
      return drop_back(size() - N); }
    ArrayRef<T> take_back(size_t N = 1) const {
      if (N >= size()) return *this;
      return drop_front(size() - N); }
  \<close>
\<close>

type_synonym 'a ArrayRef = "'a list"

definition drop_front :: "'a ArrayRef \<Rightarrow> nat \<Rightarrow> error + 'a ArrayRef" where
  "drop_front xs N =
     (if length xs \<ge> N then Inr (drop N xs)
      else Inl (AssertionFailure ''Dropping more elements than exist''))"

definition drop_back :: "'a ArrayRef \<Rightarrow> nat \<Rightarrow> error + 'a ArrayRef" where
  "drop_back xs N =
     (if length xs \<ge> N then Inr (take (length xs - N) xs)
      else Inl (AssertionFailure ''Dropping more elements than exist''))"

definition take_front :: "'a ArrayRef \<Rightarrow> nat \<Rightarrow> error + 'a ArrayRef" where
  "take_front xs N = (if N \<ge> length xs then Inr xs else drop_back xs (length xs - N))"

definition take_back :: "'a ArrayRef \<Rightarrow> nat \<Rightarrow> error + 'a ArrayRef" where
  "take_back xs N = (if N \<ge> length xs then Inr xs else drop_front xs (length xs - N))"

text \<open>
  \<^verbatim>\<open>std::equal(first1, last1, first2, pred)\<close> walks the first range and reads the
  second one alongside; it stops with false at the first pair the predicate rejects.
  Reading past the end of the second range is undefined behaviour: \<open>None\<close>.
\<close>

fun std_equal :: "('a \<Rightarrow> 'b \<Rightarrow> bool) \<Rightarrow> 'a list \<Rightarrow> 'b list \<Rightarrow> bool option" where
  "std_equal pred [] ys = Some True"
| "std_equal pred (x # xs) [] = None"
| "std_equal pred (x # xs) (y # ys) =
     (if pred x y then std_equal pred xs ys else Some False)"

text \<open>
  \<^verbatim>\<open>ArrayRef::equals\<close>, which \<^verbatim>\<open>operator==\<close> of two views calls: the lengths are
  compared first, then the elements with their own \<^verbatim>\<open>==\<close>.
\<close>

definition ArrayRef_equals :: "('a \<Rightarrow> 'a \<Rightarrow> bool) \<Rightarrow> 'a ArrayRef \<Rightarrow> 'a ArrayRef \<Rightarrow> bool" where
  "ArrayRef_equals elem_eq LHS RHS =
     (if length LHS \<noteq> length RHS then False
      else std_equal elem_eq LHS RHS = Some True)"

subsection \<open>Import paths\<close>

type_synonym ImportPathElement = "Identifier Located"
type_synonym ImportPathRaw = "ImportPathElement ArrayRef"

text \<open>
  \<^verbatim>\<open>detail::ImportPathBase<Subclass>\<close> holds the one field \<^verbatim>\<open>raw\<close>. The type
  parameter plays the part of the template argument: the three subclasses are the three
  instances below, and an operation of the base that builds a \<^verbatim>\<open>Subclass\<close> takes that
  subclass's constructor as its first argument.
\<close>

datatype 'Subclass ImportPathBase = ImportPathBase (getRaw: ImportPathRaw)

datatype ImportPath_tag = ImportPath_tag
datatype Access_tag = Access_tag
datatype Module_tag = Module_tag

type_synonym ImportPath = "ImportPath_tag ImportPathBase"
type_synonym ImportPath_Access = "Access_tag ImportPathBase"
type_synonym ImportPath_Module = "Module_tag ImportPathBase"

definition empty_path :: "'s ImportPathBase \<Rightarrow> bool" where
  "empty_path this = (getRaw this = [])"

definition size_path :: "'s ImportPathBase \<Rightarrow> nat" where
  "size_path this = length (getRaw this)"

definition operator_eq :: "'s ImportPathBase \<Rightarrow> 's ImportPathBase \<Rightarrow> bool" where
  "operator_eq this other = ArrayRef_equals Located_eq (getRaw this) (getRaw other)"

definition isSameAs :: "'s ImportPathBase \<Rightarrow> 's ImportPathBase \<Rightarrow> bool" where
  "isSameAs this other =
     (if size_path this \<noteq> size_path other then False
      else std_equal (\<lambda>l r. Item l = Item r) (getRaw this) (getRaw other) = Some True)"

definition getTopLevelPath ::
  "(ImportPathRaw \<Rightarrow> error + 's ImportPathBase) \<Rightarrow> 's ImportPathBase \<Rightarrow> error + 's ImportPathBase" where
  "getTopLevelPath Subclass this =
     (if \<not> size_path this \<ge> 1 then Inl (AssertionFailure ''nothing to take'')
      else case take_front (getRaw this) 1 of
             Inl e \<Rightarrow> Inl e
           | Inr r \<Rightarrow> Subclass r)"

definition getParentPath ::
  "(ImportPathRaw \<Rightarrow> error + 's ImportPathBase) \<Rightarrow> 's ImportPathBase \<Rightarrow> error + 's ImportPathBase" where
  "getParentPath Subclass this =
     (if \<not> size_path this \<ge> 0 then Inl (AssertionFailure ''nothing to take'')
      else case drop_back (getRaw this) 1 of
             Inl e \<Rightarrow> Inl e
           | Inr r \<Rightarrow> Subclass r)"

text \<open>The constructors of the three subclasses, each with its assertion.\<close>

definition mk_Access :: "ImportPathRaw \<Rightarrow> error + ImportPath_Access" where
  "mk_Access raw =
     (if \<not> length raw \<le> 1 then Inl (AssertionFailure ''nested scoped imports are not supported'')
      else Inr (ImportPathBase raw))"

definition mk_Access_default :: "ImportPath_Access" where
  "mk_Access_default = ImportPathBase []"

definition mk_Module :: "ImportPathRaw \<Rightarrow> error + ImportPath_Module" where
  "mk_Module raw =
     (if \<not> length raw \<ge> 1 then Inl (AssertionFailure ''must have a top-level module'')
      else Inr (ImportPathBase raw))"

definition mk_ImportPath :: "ImportPathRaw \<Rightarrow> error + ImportPath" where
  "mk_ImportPath raw =
     (if \<not> length raw \<ge> 1 then Inl (AssertionFailure ''ImportPath must contain a module name'')
      else Inr (ImportPathBase raw))"

text \<open>
  \<^verbatim>\<open>Access::matches\<close>: \<^verbatim>\<open>empty() || DeclName(front().Item).matchesRef(name)\<close>;
  the right operand is evaluated on a non-empty path only.
\<close>

definition matches :: "ImportPath_Access \<Rightarrow> DeclName \<Rightarrow> bool" where
  "matches this name =
     (case getRaw this of
        [] \<Rightarrow> True
      | front # _ \<Rightarrow> matchesRef (DeclName (Item front)) name)"

definition hasSubmodule :: "ImportPath_Module \<Rightarrow> bool" where
  "hasSubmodule this = (size_path this \<noteq> 1)"

definition getSubmodulePath :: "ImportPath_Module \<Rightarrow> error + ImportPathRaw" where
  "getSubmodulePath this = drop_front (getRaw this) 1"

definition getModulePath :: "ImportPath \<Rightarrow> bool \<Rightarrow> error + ImportPath_Module" where
  "getModulePath this isScoped =
     (if isScoped then
        (case drop_back (getRaw this) 1 of
           Inl e \<Rightarrow> Inl e
         | Inr r \<Rightarrow> mk_Module r)
      else mk_Module (getRaw this))"

definition getAccessPath :: "ImportPath \<Rightarrow> bool \<Rightarrow> error + ImportPath_Access" where
  "getAccessPath this isScoped =
     (if isScoped then
        (if \<not> size_path this \<ge> 2
         then Inl (AssertionFailure ''scoped ImportPath must contain a decl name'')
         else case take_back (getRaw this) 1 of
                Inl e \<Rightarrow> Inl e
              | Inr r \<Rightarrow> mk_Access r)
      else Inr mk_Access_default)"

datatype ImportKind = Module | Type | Struct | Class | Enum | Protocol | Var | Func

definition getModulePath_kind :: "ImportPath \<Rightarrow> ImportKind \<Rightarrow> error + ImportPath_Module" where
  "getModulePath_kind this importKind = getModulePath this (importKind \<noteq> Module)"

definition getAccessPath_kind :: "ImportPath \<Rightarrow> ImportKind \<Rightarrow> error + ImportPath_Access" where
  "getAccessPath_kind this importKind = getAccessPath this (importKind \<noteq> Module)"

subsection \<open>Building a path\<close>

text \<open>
  \<^verbatim>\<open>llvm::StringRef\<close> is the sequence of characters it views. \<^verbatim>\<open>find\<close> gives the
  index of the first occurrence (\<open>None\<close> is \<^verbatim>\<open>npos\<close>), and \<^verbatim>\<open>split(char)\<close>
  cuts at it (llvm/ADT/StringRef.h):
  \<^verbatim>\<open>
    size_t Idx = find(Separator);
    if (Idx == npos) return std::make_pair(*this, StringRef());
    return std::make_pair(slice(0, Idx), slice(Idx + Separator.size(), npos));
  \<close>
\<close>

type_synonym StringRef = string

definition StringRef_find :: "StringRef \<Rightarrow> char \<Rightarrow> nat option" where
  "StringRef_find this C =
     (if C \<in> set this then Some (length (takeWhile (\<lambda>c. c \<noteq> C) this)) else None)"

definition StringRef_split :: "StringRef \<Rightarrow> char \<Rightarrow> StringRef \<times> StringRef" where
  "StringRef_split this Separator =
     (case StringRef_find this Separator of
        None \<Rightarrow> (this, [])
      | Some Idx \<Rightarrow> (take Idx this, drop (Idx + 1) this))"

text \<open>
  Modelled from the spec: \<^verbatim>\<open>ASTContext\<close> and \<^verbatim>\<open>ImportPathBuilder_getIdentifierImpl\<close>
  (declared in Import.h as a shim, defined outside src/). The spec: "intern each token
  as an identifier via the context". The context holds the table of interned names;
  interning a string enters it in the table and gives its identifier.
\<close>

record ASTContext =
  IdentifierTable :: "string set"

definition ImportPathBuilder_getIdentifierImpl :: "ASTContext \<Rightarrow> StringRef \<Rightarrow> Identifier \<times> ASTContext" where
  "ImportPathBuilder_getIdentifierImpl ctx string =
     (Identifier string, ctx\<lparr>IdentifierTable := insert string (IdentifierTable ctx)\<rparr>)"

text \<open>
  \<^verbatim>\<open>detail::ImportPathBuilder<Subclass>\<close>: the vector \<^verbatim>\<open>scratch\<close>. The constructor
  from a text is the loop
  \<^verbatim>\<open>
    while (!text.empty()) {
      StringRef next;
      std::tie(next, text) = text.split(separator);
      push_back(ImportPathBuilder_getIdentifierImpl(ctx, next));
    }
  \<close>
  where \<^verbatim>\<open>push_back(Identifier name, SourceLoc loc = SourceLoc())\<close> is called with the
  default location.
\<close>

datatype 'Subclass ImportPathBuilder = ImportPathBuilder (scratch: "ImportPathElement list")

definition push_back :: "'s ImportPathBuilder \<Rightarrow> ImportPathElement \<Rightarrow> 's ImportPathBuilder" where
  "push_back this elem = ImportPathBuilder (scratch this @ [elem])"

definition push_back_name :: "'s ImportPathBuilder \<Rightarrow> Identifier \<Rightarrow> SourceLoc \<Rightarrow> 's ImportPathBuilder" where
  "push_back_name this name loc = ImportPathBuilder (scratch this @ [\<lparr>Item = name, Loc = loc\<rparr>])"

definition get ::
  "(ImportPathRaw \<Rightarrow> error + 's ImportPathBase) \<Rightarrow> 's ImportPathBuilder \<Rightarrow> error + 's ImportPathBase" where
  "get Subclass this = Subclass (scratch this)"

function ImportPathBuilder_split_loop ::
  "ASTContext \<Rightarrow> StringRef \<Rightarrow> char \<Rightarrow> 's ImportPathBuilder \<Rightarrow> 's ImportPathBuilder \<times> ASTContext" where
  "ImportPathBuilder_split_loop ctx text separator this =
     (if text \<noteq> [] then
        (let pieces = StringRef_split text separator;
             interned = ImportPathBuilder_getIdentifierImpl ctx (fst pieces)
         in ImportPathBuilder_split_loop (snd interned) (snd pieces) separator
              (push_back_name this (fst interned) SourceLoc_invalid))
      else (this, ctx))"
  by pat_completeness auto
termination
  by (relation "measure (\<lambda>(ctx, text, separator, this). length text)")
     (auto simp: StringRef_split_def StringRef_find_def)

declare ImportPathBuilder_split_loop.simps [simp del]

definition ImportPathBuilder_text ::
  "ASTContext \<Rightarrow> StringRef \<Rightarrow> char \<Rightarrow> 's ImportPathBuilder \<times> ASTContext" where
  "ImportPathBuilder_text ctx text separator =
     ImportPathBuilder_split_loop ctx text separator (ImportPathBuilder [])"

text \<open>
  What the spec calls splitting a text into tokens at a separator, written on its own for
  comparison with the loop: the fields between the separators, a separator at the very
  end of the text closing the last field rather than opening an empty one.
\<close>

fun separated_fields :: "char \<Rightarrow> string \<Rightarrow> string list" where
  "separated_fields sep [] = [[]]"
| "separated_fields sep (c # cs) =
     (if c = sep then [] # separated_fields sep cs
      else (case separated_fields sep cs of
              [] \<Rightarrow> [[c]]
            | f # fs \<Rightarrow> (c # f) # fs))"

definition tokens_at :: "char \<Rightarrow> string \<Rightarrow> string list" where
  "tokens_at sep text =
     (let fs = separated_fields sep text in if last fs = [] then butlast fs else fs)"

subsection \<open>Import options and attributed imports\<close>

datatype ImportFlags =
  Exported | Testable | PrivateImport | ImplementationOnly | SPIAccessControl | Reserved

fun ImportFlags_value :: "ImportFlags \<Rightarrow> 32 word" where
  "ImportFlags_value Exported = 0x1"
| "ImportFlags_value Testable = 0x2"
| "ImportFlags_value PrivateImport = 0x4"
| "ImportFlags_value ImplementationOnly = 0x8"
| "ImportFlags_value SPIAccessControl = 0x10"
| "ImportFlags_value Reserved = 0x80"

text \<open>
  Modelled from the spec: \<^verbatim>\<open>OptionSet<ImportFlags>\<close> (swift/Basic/OptionSet.h is not
  under src/): "a bit-set supporting union, intersection, membership test, and
  round-trip to/from a raw integer". The raw integer is the unsigned counterpart of the
  enumeration's underlying type, 32 bits wide; \<^verbatim>\<open>contains\<close> is the membership
  test: every bit of the flag is set.
\<close>

type_synonym ImportOptions = "32 word"

definition contains :: "ImportOptions \<Rightarrow> ImportFlags \<Rightarrow> bool" where
  "contains this flag = (and (ImportFlags_value flag) (not this) = 0)"

record 'ModuleInfo AttributedImport =
  module :: 'ModuleInfo
  importOptions :: ImportOptions
  filename :: StringRef
  spiGroups :: "Identifier list"

definition mk_AttributedImport ::
  "'m \<Rightarrow> ImportOptions \<Rightarrow> StringRef \<Rightarrow> Identifier list \<Rightarrow> error + 'm AttributedImport" where
  "mk_AttributedImport m options fname groups =
     (if \<not> (\<not> (contains options Exported \<and> contains options ImplementationOnly)
             \<or> contains options Reserved)
      then Inl (AssertionFailure
        ''!(importOptions.contains(ImportFlags::Exported) && importOptions.contains(ImportFlags::ImplementationOnly)) || importOptions.contains(ImportFlags::Reserved)'')
      else Inr \<lparr>module = m, importOptions = options, filename = fname, spiGroups = groups\<rparr>)"

subsection \<open>Imported modules\<close>

record ImportedModule =
  accessPath :: ImportPath_Access
  importedModule :: ModuleDecl_ptr

definition mk_ImportedModule :: "ImportPath_Access \<Rightarrow> ModuleDecl_ptr \<Rightarrow> error + ImportedModule" where
  "mk_ImportedModule path m =
     (if m = 0 then Inl (AssertionFailure ''this->importedModule'')
      else Inr \<lparr>accessPath = path, importedModule = m\<rparr>)"

type_synonym ImportedModuleDesc = "ImportedModule AttributedImport"

definition ImportedModule_eq :: "ImportedModule \<Rightarrow> ImportedModule \<Rightarrow> bool" where
  "ImportedModule_eq this other =
     (importedModule this = importedModule other \<and>
      operator_eq (accessPath this) (accessPath other))"

subsection \<open>DenseMapInfo\<close>

text \<open>
  A specialisation of \<^verbatim>\<open>llvm::DenseMapInfo<T>\<close> gives a hash (an \<^verbatim>\<open>unsigned\<close>) and
  the equality of keys. The specialisations of LLVM itself that Import.h calls
  (for \<^verbatim>\<open>uint8_t\<close>, for \<^verbatim>\<open>StringRef\<close>, for a pair of a size and a pointer, and
  \<^verbatim>\<open>detail::combineHashValue\<close>) are parameters of the three specialisations below.
\<close>

record 'a DenseMapInfo =
  getHashValue :: "'a \<Rightarrow> 32 word"
  isEqual :: "'a \<Rightarrow> 'a \<Rightarrow> bool"

text \<open>
  \<^verbatim>\<open>DenseMapInfo<ImportOptions>\<close> passes \<^verbatim>\<open>toRaw()\<close> to the specialisation for
  \<^verbatim>\<open>uint8_t\<close>: the conversion keeps the low eight bits.
\<close>

definition DenseMapInfo_ImportOptions :: "8 word DenseMapInfo \<Rightarrow> ImportOptions DenseMapInfo" where
  "DenseMapInfo_ImportOptions UnsignedDMI =
     \<lparr>getHashValue = (\<lambda>options. getHashValue UnsignedDMI (ucast options)),
      isEqual = (\<lambda>a b. isEqual UnsignedDMI (ucast a) (ucast b))\<rparr>"

definition DenseMapInfo_ImportedModule ::
  "(nat \<times> ModuleDecl_ptr) DenseMapInfo \<Rightarrow> ImportedModule DenseMapInfo" where
  "DenseMapInfo_ImportedModule PairDMI =
     \<lparr>getHashValue = (\<lambda>val.
        (let pair = (size_path (accessPath val), importedModule val)
         in getHashValue PairDMI pair)),
      isEqual = (\<lambda>lhs rhs.
        importedModule lhs = importedModule rhs \<and>
        isSameAs (accessPath lhs) (accessPath rhs))\<rparr>"

definition DenseMapInfo_AttributedImport ::
  "(32 word \<Rightarrow> 32 word \<Rightarrow> 32 word) \<Rightarrow> 'm DenseMapInfo \<Rightarrow> 8 word DenseMapInfo \<Rightarrow>
   StringRef DenseMapInfo \<Rightarrow> 'm AttributedImport DenseMapInfo" where
  "DenseMapInfo_AttributedImport combineHashValue ModuleInfoDMI UnsignedDMI StringRefDMI =
     (let ImportOptionsDMI = DenseMapInfo_ImportOptions UnsignedDMI in
      \<lparr>getHashValue = (\<lambda>imp.
         combineHashValue
           (getHashValue ModuleInfoDMI (module imp))
           (combineHashValue
              (getHashValue ImportOptionsDMI (importOptions imp))
              (getHashValue StringRefDMI (filename imp)))),
       isEqual = (\<lambda>a b.
         isEqual ModuleInfoDMI (module a) (module b) \<and>
         isEqual ImportOptionsDMI (importOptions a) (importOptions b) \<and>
         isEqual StringRefDMI (filename a) (filename b))\<rparr>)"

section \<open>Properties\<close>

subsection \<open>std::equal and the two equalities of a path\<close>

lemma std_equal_same_length:
  "length xs = length ys \<Longrightarrow> std_equal pred xs ys = Some (list_all2 pred xs ys)"
proof (induction pred xs ys rule: std_equal.induct)
  case (1 pred ys)
  then show ?case by simp
next
  case (2 pred x xs)
  then show ?case by simp
next
  case (3 pred x xs y ys)
  then show ?case by simp
qed

lemma Located_eq_iff: "Located_eq (l :: 'a Located) r \<longleftrightarrow> l = r"
  by (cases l, cases r) (simp add: Located_eq_def)

lemma operator_eq_iff: "operator_eq a b \<longleftrightarrow> getRaw a = getRaw b"
proof (cases "length (getRaw a) = length (getRaw b)")
  case True
  have "Located_eq = ((=) :: ImportPathElement \<Rightarrow> ImportPathElement \<Rightarrow> bool)"
    by (intro ext) (rule Located_eq_iff)
  then have "list_all2 Located_eq (getRaw a) (getRaw b) \<longleftrightarrow> getRaw a = getRaw b"
    by (simp add: list_all2_eq)
  with True show ?thesis
    by (simp add: operator_eq_def ArrayRef_equals_def std_equal_same_length)
next
  case False
  then show ?thesis
    by (auto simp: operator_eq_def ArrayRef_equals_def)
qed

lemma isSameAs_iff: "isSameAs a b \<longleftrightarrow> map Item (getRaw a) = map Item (getRaw b)"
proof (cases "length (getRaw a) = length (getRaw b)")
  case True
  have "list_all2 (\<lambda>l r. Item l = Item r) (getRaw a) (getRaw b)
        \<longleftrightarrow> map Item (getRaw a) = map Item (getRaw b)"
    by (simp add: list_all2_conv_all_nth list_eq_iff_nth_eq True)
  with True show ?thesis
    by (simp add: isSameAs_def size_path_def std_equal_same_length)
next
  case False
  then have "map Item (getRaw a) \<noteq> map Item (getRaw b)"
    by (metis length_map)
  with False show ?thesis
    by (simp add: isSameAs_def size_path_def)
qed

lemma Located_list_eq_iff:
  "(xs :: 'a Located list) = ys \<longleftrightarrow> map Item xs = map Item ys \<and> map Loc xs = map Loc ys"
proof
  assume "xs = ys"
  then show "map Item xs = map Item ys \<and> map Loc xs = map Loc ys" by simp
next
  assume h: "map Item xs = map Item ys \<and> map Loc xs = map Loc ys"
  then have len: "length xs = length ys"
    by (metis length_map)
  have "xs ! i = ys ! i" if "i < length xs" for i
  proof -
    from h that len have "Item (xs ! i) = Item (ys ! i)" "Loc (xs ! i) = Loc (ys ! i)"
      by (metis nth_map)+
    then show ?thesis
      using Located_eq_iff [of "xs ! i" "ys ! i"] by (simp add: Located_eq_def)
  qed
  with len show "xs = ys"
    by (simp add: list_eq_iff_nth_eq)
qed

subsection \<open>Slicing a view\<close>

lemma drop_back_one: "xs \<noteq> [] \<Longrightarrow> drop_back xs (Suc 0) = Inr (butlast xs)"
  by (cases xs) (simp_all add: drop_back_def butlast_conv_take)

lemma take_back_one: "xs \<noteq> [] \<Longrightarrow> take_back xs (Suc 0) = Inr [last xs]"
proof (cases xs rule: rev_cases)
  case Nil
  assume "xs \<noteq> []"
  with Nil show ?thesis by simp
next
  case (snoc ys y)
  then show ?thesis
    by (simp add: take_back_def drop_front_def)
qed

subsection \<open>Splitting an import path into module path and access path\<close>

text \<open>
  Claim C1. For an \<^verbatim>\<open>ImportPath\<close> of at least two elements,
  \<^verbatim>\<open>getModulePath(true)\<close> succeeds with the path without its last element (so its size
  is one less), \<^verbatim>\<open>getAccessPath(true)\<close> succeeds with the one-element path of the last
  element, and the elements of the first followed by the element of the second are the
  elements of the path.
\<close>

theorem scoped_split_reproduces_path:
  assumes "2 \<le> size_path p"
  shows "\<exists>m a. getModulePath p True = Inr m \<and> getAccessPath p True = Inr a \<and>
           size_path m = size_path p - 1 \<and> getRaw m = butlast (getRaw p) \<and>
           size_path a = 1 \<and> getRaw a = [last (getRaw p)] \<and>
           getRaw m @ getRaw a = getRaw p"
proof -
  from assms have ne: "getRaw p \<noteq> []"
    by (auto simp: size_path_def)
  from assms have "1 \<le> length (butlast (getRaw p))"
    by (simp add: size_path_def)
  then have m: "getModulePath p True = Inr (ImportPathBase (butlast (getRaw p)))"
    by (simp add: getModulePath_def drop_back_one [OF ne] mk_Module_def)
  from assms have a: "getAccessPath p True = Inr (ImportPathBase [last (getRaw p)])"
    by (simp add: getAccessPath_def take_back_one [OF ne] mk_Access_def)
  from m a ne show ?thesis
    by (simp add: size_path_def)
qed

theorem scoped_split_reproduces_path_witness:
  "2 \<le> size_path (ImportPathBase
       [\<lparr>Item = Identifier ''Foo'', Loc = SourceLoc_at 7\<rparr>,
        \<lparr>Item = Identifier ''Bar'', Loc = SourceLoc_at 11\<rparr>] :: ImportPath) \<and>
   getModulePath (ImportPathBase
       [\<lparr>Item = Identifier ''Foo'', Loc = SourceLoc_at 7\<rparr>,
        \<lparr>Item = Identifier ''Bar'', Loc = SourceLoc_at 11\<rparr>]) True
     = Inr (ImportPathBase [\<lparr>Item = Identifier ''Foo'', Loc = SourceLoc_at 7\<rparr>]) \<and>
   getAccessPath (ImportPathBase
       [\<lparr>Item = Identifier ''Foo'', Loc = SourceLoc_at 7\<rparr>,
        \<lparr>Item = Identifier ''Bar'', Loc = SourceLoc_at 11\<rparr>]) True
     = Inr (ImportPathBase [\<lparr>Item = Identifier ''Bar'', Loc = SourceLoc_at 11\<rparr>])"
proof -
  let ?p = "ImportPathBase
       [\<lparr>Item = Identifier ''Foo'', Loc = SourceLoc_at 7\<rparr>,
        \<lparr>Item = Identifier ''Bar'', Loc = SourceLoc_at 11\<rparr>] :: ImportPath"
  have two: "2 \<le> size_path ?p"
    by (simp add: size_path_def)
  from scoped_split_reproduces_path [OF two]
  obtain m a where m: "getModulePath ?p True = Inr m" and a: "getAccessPath ?p True = Inr a"
    and rm: "getRaw m = butlast (getRaw ?p)" and ra: "getRaw a = [last (getRaw ?p)]"
    by blast
  have "m = ImportPathBase (butlast (getRaw ?p))"
    using rm by (cases m) simp
  moreover have "a = ImportPathBase [last (getRaw ?p)]"
    using ra by (cases a) simp
  ultimately show ?thesis
    using two m a by simp
qed

subsection \<open>Strict and semantic equality of paths\<close>

text \<open>
  Claim C7. Two element sequences of the same length whose identifiers agree at every
  position and whose source locations differ at some position give paths that
  \<^verbatim>\<open>isSameAs\<close> accepts and that the strict \<^verbatim>\<open>operator==\<close> rejects.
\<close>

theorem same_identifiers_other_locations:
  fixes a b :: "'s ImportPathBase"
  assumes "length (getRaw a) = length (getRaw b)"
    and "\<forall>i < length (getRaw a). Item (getRaw a ! i) = Item (getRaw b ! i)"
    and "\<exists>i < length (getRaw a). Loc (getRaw a ! i) \<noteq> Loc (getRaw b ! i)"
  shows "isSameAs a b \<and> \<not> operator_eq a b"
proof
  from assms(1,2) have "map Item (getRaw a) = map Item (getRaw b)"
    by (simp add: list_eq_iff_nth_eq)
  then show "isSameAs a b"
    by (simp add: isSameAs_iff)
next
  from assms(3) have "getRaw a \<noteq> getRaw b"
    by auto
  then show "\<not> operator_eq a b"
    by (simp add: operator_eq_iff)
qed

theorem same_identifiers_other_locations_witness:
  "isSameAs (ImportPathBase [\<lparr>Item = Identifier ''Foo'', Loc = SourceLoc_at 1\<rparr>,
                            \<lparr>Item = Identifier ''Bar'', Loc = SourceLoc_at 5\<rparr>] :: ImportPath)
            (ImportPathBase [\<lparr>Item = Identifier ''Foo'', Loc = SourceLoc_at 1\<rparr>,
                            \<lparr>Item = Identifier ''Bar'', Loc = SourceLoc_invalid\<rparr>]) \<and>
   \<not> operator_eq (ImportPathBase [\<lparr>Item = Identifier ''Foo'', Loc = SourceLoc_at 1\<rparr>,
                            \<lparr>Item = Identifier ''Bar'', Loc = SourceLoc_at 5\<rparr>] :: ImportPath)
            (ImportPathBase [\<lparr>Item = Identifier ''Foo'', Loc = SourceLoc_at 1\<rparr>,
                            \<lparr>Item = Identifier ''Bar'', Loc = SourceLoc_invalid\<rparr>])"
proof (rule same_identifiers_other_locations)
  let ?a = "ImportPathBase [\<lparr>Item = Identifier ''Foo'', Loc = SourceLoc_at 1\<rparr>,
                            \<lparr>Item = Identifier ''Bar'', Loc = SourceLoc_at 5\<rparr>] :: ImportPath"
  let ?b = "ImportPathBase [\<lparr>Item = Identifier ''Foo'', Loc = SourceLoc_at 1\<rparr>,
                            \<lparr>Item = Identifier ''Bar'', Loc = SourceLoc_invalid\<rparr>] :: ImportPath"
  show "length (getRaw ?a) = length (getRaw ?b)"
    by simp
  show "\<forall>i < length (getRaw ?a). Item (getRaw ?a ! i) = Item (getRaw ?b ! i)"
    by (simp add: nth_Cons' )
  have "Loc (getRaw ?a ! 1) \<noteq> Loc (getRaw ?b ! 1)"
    by simp
  then show "\<exists>i < length (getRaw ?a). Loc (getRaw ?a ! i) \<noteq> Loc (getRaw ?b ! i)"
    by (intro exI [of _ 1]) simp
qed

text \<open>
  Claim C10. The strict \<^verbatim>\<open>operator==\<close> implies \<^verbatim>\<open>isSameAs\<close>, and
  \<^verbatim>\<open>isSameAs\<close> is reflexive, symmetric and transitive.
\<close>

theorem strict_refines_semantic_equivalence:
  fixes a b c d e :: "'s ImportPathBase"
  shows "(operator_eq a b \<longrightarrow> isSameAs a b) \<and>
    isSameAs c c \<and>
    (isSameAs c d \<longrightarrow> isSameAs d c) \<and>
    (isSameAs c d \<and> isSameAs d e \<longrightarrow> isSameAs c e)"
  by (simp add: isSameAs_iff operator_eq_iff)

theorem strict_refines_semantic_equivalence_witness:
  "operator_eq (ImportPathBase [\<lparr>Item = Identifier ''Foo'', Loc = SourceLoc_at 1\<rparr>] :: ImportPath_Module)
               (ImportPathBase [\<lparr>Item = Identifier ''Foo'', Loc = SourceLoc_at 1\<rparr>]) \<and>
   isSameAs (ImportPathBase [\<lparr>Item = Identifier ''Foo'', Loc = SourceLoc_at 1\<rparr>] :: ImportPath_Module)
            (ImportPathBase [\<lparr>Item = Identifier ''Foo'', Loc = SourceLoc_at 1\<rparr>]) \<and>
   isSameAs (ImportPathBase [\<lparr>Item = Identifier ''Foo'', Loc = SourceLoc_at 1\<rparr>] :: ImportPath_Module)
            (ImportPathBase [\<lparr>Item = Identifier ''Foo'', Loc = SourceLoc_at 2\<rparr>]) \<and>
   isSameAs (ImportPathBase [\<lparr>Item = Identifier ''Foo'', Loc = SourceLoc_at 2\<rparr>] :: ImportPath_Module)
            (ImportPathBase [\<lparr>Item = Identifier ''Foo'', Loc = SourceLoc_at 3\<rparr>]) \<and>
   isSameAs (ImportPathBase [\<lparr>Item = Identifier ''Foo'', Loc = SourceLoc_at 2\<rparr>] :: ImportPath_Module)
            (ImportPathBase [\<lparr>Item = Identifier ''Foo'', Loc = SourceLoc_at 1\<rparr>]) \<and>
   isSameAs (ImportPathBase [\<lparr>Item = Identifier ''Foo'', Loc = SourceLoc_at 1\<rparr>] :: ImportPath_Module)
            (ImportPathBase [\<lparr>Item = Identifier ''Foo'', Loc = SourceLoc_at 3\<rparr>])"
  using strict_refines_semantic_equivalence
    [of "ImportPathBase [\<lparr>Item = Identifier ''Foo'', Loc = SourceLoc_at 1\<rparr>] :: ImportPath_Module"
        "ImportPathBase [\<lparr>Item = Identifier ''Foo'', Loc = SourceLoc_at 1\<rparr>]"
        "ImportPathBase [\<lparr>Item = Identifier ''Foo'', Loc = SourceLoc_at 1\<rparr>]"
        "ImportPathBase [\<lparr>Item = Identifier ''Foo'', Loc = SourceLoc_at 2\<rparr>]"
        "ImportPathBase [\<lparr>Item = Identifier ''Foo'', Loc = SourceLoc_at 3\<rparr>]"]
  by (simp add: operator_eq_def isSameAs_def ArrayRef_equals_def Located_eq_def size_path_def)

subsection \<open>The scope of an access path\<close>

text \<open>
  Claim C6. The empty access path (the default-constructed one, and the one over an empty
  sequence) matches every name; a one-element access path matches a name exactly when the
  name is the one of its identifier.
\<close>

theorem matches_empty_and_single:
  "matches mk_Access_default n \<and>
   matches (ImportPathBase []) n \<and>
   (matches (ImportPathBase [e]) n \<longleftrightarrow> n = DeclName (Item e))"
  by (auto simp: matches_def mk_Access_default_def matchesRef_def)

subsection \<open>The invariant of an attributed import\<close>

text \<open>
  Claim C5. The constructor of \<^verbatim>\<open>AttributedImport\<close> fails its assertion when the
  options contain \<^verbatim>\<open>Exported\<close> and \<^verbatim>\<open>ImplementationOnly\<close> and not
  \<^verbatim>\<open>Reserved\<close>; it succeeds, with the fields it was given, for every option set that
  contains \<^verbatim>\<open>Reserved\<close>.
\<close>

theorem AttributedImport_invariant:
  "(contains o1 Exported \<and> contains o1 ImplementationOnly \<and> \<not> contains o1 Reserved \<longrightarrow>
      isl (mk_AttributedImport m o1 f g)) \<and>
   (contains o2 Reserved \<longrightarrow>
      mk_AttributedImport m o2 f g
        = Inr \<lparr>module = m, importOptions = o2, filename = f, spiGroups = g\<rparr>)"
  by (simp add: mk_AttributedImport_def)

theorem AttributedImport_invariant_witness:
  "contains 0x9 Exported \<and> contains 0x9 ImplementationOnly \<and> \<not> contains 0x9 Reserved \<and>
   isl (mk_AttributedImport (1 :: ModuleDecl_ptr) 0x9 ''a.swift'' []) \<and>
   contains 0x89 Reserved \<and> contains 0x89 Exported \<and> contains 0x89 ImplementationOnly \<and>
   mk_AttributedImport (1 :: ModuleDecl_ptr) 0x89 ''a.swift'' []
     = Inr \<lparr>module = 1, importOptions = 0x89, filename = ''a.swift'', spiGroups = []\<rparr>"
  using AttributedImport_invariant [of "0x9" "1 :: ModuleDecl_ptr" "''a.swift''" "[]" "0x89"]
  by (simp add: contains_def)

subsection \<open>The parent of a path\<close>

text \<open>
  \<^verbatim>\<open>getParentPath\<close> asserts \<^verbatim>\<open>size() >= 0\<close>, which holds of every size, and then
  calls \<^verbatim>\<open>raw.drop_back()\<close> and the constructor of the subclass. On a non-empty view it is
  that constructor applied to the view without its last element, with the constructor's own
  assertion. On an empty view \<^verbatim>\<open>drop_back\<close> is called outside its precondition: the
  assertion of \<^verbatim>\<open>ArrayRef::drop_back\<close> fails, whatever the subclass.
\<close>

lemma getParentPath_empty_view:
  "getParentPath Subclass (ImportPathBase [])
     = Inl (AssertionFailure ''Dropping more elements than exist'')"
  by (simp add: getParentPath_def drop_back_def)

lemma getParentPath_nonempty:
  "getRaw p \<noteq> [] \<Longrightarrow> getParentPath Subclass p = Subclass (butlast (getRaw p))"
  by (simp add: getParentPath_def drop_back_one)

text \<open>
  Claim C4, as amended. \<^verbatim>\<open>getParentPath()\<close> returns the view without its last element
  where the subclass admits the shorter view: on an \<^verbatim>\<open>Access\<close> of one element (the
  result is the empty access path) and on a \<^verbatim>\<open>Module\<close> or an \<^verbatim>\<open>ImportPath\<close> of
  two or more elements. On a \<^verbatim>\<open>Module\<close> or an \<^verbatim>\<open>ImportPath\<close> of exactly one
  element the assertion of the subclass's constructor fails. The claim as stated (valid on
  every path view) is refuted by the one-element module path below.
\<close>

theorem getParentPath_by_subclass:
  fixes a :: ImportPath_Access and m m1 :: ImportPath_Module and i i1 :: ImportPath
  shows
  "(size_path a = 1 \<longrightarrow> getParentPath mk_Access a = Inr (ImportPathBase [])) \<and>
   (2 \<le> size_path m \<longrightarrow> getParentPath mk_Module m = Inr (ImportPathBase (butlast (getRaw m)))) \<and>
   (2 \<le> size_path i \<longrightarrow> getParentPath mk_ImportPath i = Inr (ImportPathBase (butlast (getRaw i)))) \<and>
   (size_path m1 = 1 \<longrightarrow>
      getParentPath mk_Module m1 = Inl (AssertionFailure ''must have a top-level module'')) \<and>
   (size_path i1 = 1 \<longrightarrow>
      getParentPath mk_ImportPath i1
        = Inl (AssertionFailure ''ImportPath must contain a module name''))"
proof (intro conjI impI)
  assume h: "size_path a = 1"
  then have "getRaw a \<noteq> []" "butlast (getRaw a) = []"
    by (auto simp: size_path_def length_Suc_conv)
  then show "getParentPath mk_Access a = Inr (ImportPathBase [])"
    by (simp add: getParentPath_nonempty mk_Access_def)
next
  assume h: "2 \<le> size_path m"
  then have "getRaw m \<noteq> []" "1 \<le> length (butlast (getRaw m))"
    by (auto simp: size_path_def)
  then show "getParentPath mk_Module m = Inr (ImportPathBase (butlast (getRaw m)))"
    by (simp add: getParentPath_nonempty mk_Module_def)
next
  assume h: "2 \<le> size_path i"
  then have "getRaw i \<noteq> []" "1 \<le> length (butlast (getRaw i))"
    by (auto simp: size_path_def)
  then show "getParentPath mk_ImportPath i = Inr (ImportPathBase (butlast (getRaw i)))"
    by (simp add: getParentPath_nonempty mk_ImportPath_def)
next
  assume h: "size_path m1 = 1"
  then have "getRaw m1 \<noteq> []" "butlast (getRaw m1) = []"
    by (auto simp: size_path_def length_Suc_conv)
  then show "getParentPath mk_Module m1 = Inl (AssertionFailure ''must have a top-level module'')"
    by (simp add: getParentPath_nonempty mk_Module_def)
next
  assume h: "size_path i1 = 1"
  then have "getRaw i1 \<noteq> []" "butlast (getRaw i1) = []"
    by (auto simp: size_path_def length_Suc_conv)
  then show "getParentPath mk_ImportPath i1
        = Inl (AssertionFailure ''ImportPath must contain a module name'')"
    by (simp add: getParentPath_nonempty mk_ImportPath_def)
qed

theorem getParentPath_by_subclass_witness:
  "getParentPath mk_Access (ImportPathBase [\<lparr>Item = Identifier ''Bar'', Loc = SourceLoc_at 5\<rparr>])
     = Inr (ImportPathBase []) \<and>
   getParentPath mk_Module
       (ImportPathBase [\<lparr>Item = Identifier ''Foo'', Loc = SourceLoc_at 1\<rparr>,
                        \<lparr>Item = Identifier ''Sub'', Loc = SourceLoc_at 5\<rparr>])
     = Inr (ImportPathBase [\<lparr>Item = Identifier ''Foo'', Loc = SourceLoc_at 1\<rparr>]) \<and>
   getParentPath mk_ImportPath
       (ImportPathBase [\<lparr>Item = Identifier ''Foo'', Loc = SourceLoc_at 1\<rparr>,
                        \<lparr>Item = Identifier ''Bar'', Loc = SourceLoc_at 5\<rparr>])
     = Inr (ImportPathBase [\<lparr>Item = Identifier ''Foo'', Loc = SourceLoc_at 1\<rparr>]) \<and>
   getParentPath mk_Module (ImportPathBase [\<lparr>Item = Identifier ''Foo'', Loc = SourceLoc_at 1\<rparr>])
     = Inl (AssertionFailure ''must have a top-level module'') \<and>
   getParentPath mk_ImportPath (ImportPathBase [\<lparr>Item = Identifier ''Foo'', Loc = SourceLoc_at 1\<rparr>])
     = Inl (AssertionFailure ''ImportPath must contain a module name'')"
  using getParentPath_by_subclass
    [of "ImportPathBase [\<lparr>Item = Identifier ''Bar'', Loc = SourceLoc_at 5\<rparr>]"
        "ImportPathBase [\<lparr>Item = Identifier ''Foo'', Loc = SourceLoc_at 1\<rparr>,
                         \<lparr>Item = Identifier ''Sub'', Loc = SourceLoc_at 5\<rparr>]"
        "ImportPathBase [\<lparr>Item = Identifier ''Foo'', Loc = SourceLoc_at 1\<rparr>,
                         \<lparr>Item = Identifier ''Bar'', Loc = SourceLoc_at 5\<rparr>]"
        "ImportPathBase [\<lparr>Item = Identifier ''Foo'', Loc = SourceLoc_at 1\<rparr>]"
        "ImportPathBase [\<lparr>Item = Identifier ''Foo'', Loc = SourceLoc_at 1\<rparr>]"]
  by (simp add: size_path_def)

theorem getParentPath_every_view_counterexample:
  "getParentPath mk_Module (ImportPathBase [\<lparr>Item = Identifier ''Foo'', Loc = SourceLoc_at 1\<rparr>])
     \<noteq> Inr (ImportPathBase (butlast [\<lparr>Item = Identifier ''Foo'', Loc = SourceLoc_at 1\<rparr>])) \<and>
   getParentPath mk_Module (ImportPathBase [\<lparr>Item = Identifier ''Foo'', Loc = SourceLoc_at 1\<rparr>])
     = Inl (AssertionFailure ''must have a top-level module'')"
  by (simp add: getParentPath_def drop_back_def mk_Module_def size_path_def)


subsection \<open>Equality of imported modules\<close>

text \<open>
  Claim C2, as amended. \<^verbatim>\<open>ImportedModule::operator==\<close> compares the access paths with
  the strict \<^verbatim>\<open>operator==\<close> of paths: two imported modules are equal exactly when they
  hold the same module pointer and their access paths have the same identifiers and the same
  source locations. The claim as stated (source locations ignored) is refuted by two
  imports of the same declaration of the same module written at two places.
\<close>

theorem ImportedModule_eq_strict:
  "ImportedModule_eq a b \<longleftrightarrow>
     importedModule a = importedModule b \<and>
     map Item (getRaw (accessPath a)) = map Item (getRaw (accessPath b)) \<and>
     map Loc (getRaw (accessPath a)) = map Loc (getRaw (accessPath b))"
  by (simp add: ImportedModule_eq_def operator_eq_iff Located_list_eq_iff)

theorem ImportedModule_eq_semantic_counterexample:
  "\<not> (ImportedModule_eq
        \<lparr>accessPath = ImportPathBase [\<lparr>Item = Identifier ''Bar'', Loc = SourceLoc_at 1\<rparr>],
         importedModule = 1\<rparr>
        \<lparr>accessPath = ImportPathBase [\<lparr>Item = Identifier ''Bar'', Loc = SourceLoc_at 2\<rparr>],
         importedModule = 1\<rparr>
      \<longleftrightarrow>
        importedModule
          \<lparr>accessPath = ImportPathBase [\<lparr>Item = Identifier ''Bar'', Loc = SourceLoc_at 1\<rparr>],
           importedModule = 1\<rparr>
        = importedModule
          \<lparr>accessPath = ImportPathBase [\<lparr>Item = Identifier ''Bar'', Loc = SourceLoc_at 2\<rparr>],
           importedModule = 1\<rparr> \<and>
        isSameAs
          (accessPath
            \<lparr>accessPath = ImportPathBase [\<lparr>Item = Identifier ''Bar'', Loc = SourceLoc_at 1\<rparr>],
             importedModule = 1\<rparr>)
          (accessPath
            \<lparr>accessPath = ImportPathBase [\<lparr>Item = Identifier ''Bar'', Loc = SourceLoc_at 2\<rparr>],
             importedModule = 1\<rparr>))"
  by (simp add: ImportedModule_eq_def operator_eq_def ArrayRef_equals_def Located_eq_def
      isSameAs_def size_path_def)

subsection \<open>Imported modules as keys of a hash table\<close>

text \<open>
  Claim C3. For two imported modules with the same module pointer whose access paths have
  the same identifiers (the source locations may differ),
  \<^verbatim>\<open>DenseMapInfo<ImportedModule>::getHashValue\<close> gives the same hash and
  \<^verbatim>\<open>isEqual\<close> is true; for two imported modules with different module pointers
  \<^verbatim>\<open>isEqual\<close> is false. This holds whatever the hash of LLVM for the pair of a size and
  a pointer is.
\<close>

theorem DenseMapInfo_ImportedModule_semantic:
  "(importedModule a = importedModule b \<and>
    map Item (getRaw (accessPath a)) = map Item (getRaw (accessPath b)) \<longrightarrow>
      getHashValue (DenseMapInfo_ImportedModule PairDMI) a
        = getHashValue (DenseMapInfo_ImportedModule PairDMI) b \<and>
      isEqual (DenseMapInfo_ImportedModule PairDMI) a b) \<and>
   (importedModule c \<noteq> importedModule d \<longrightarrow>
      \<not> isEqual (DenseMapInfo_ImportedModule PairDMI) c d)"
proof -
  have "size_path (accessPath a) = size_path (accessPath b)"
    if "map Item (getRaw (accessPath a)) = map Item (getRaw (accessPath b))"
    using that unfolding size_path_def by (metis length_map)
  then show ?thesis
    by (simp add: DenseMapInfo_ImportedModule_def isSameAs_iff)
qed

theorem DenseMapInfo_ImportedModule_semantic_witness:
  "getHashValue (DenseMapInfo_ImportedModule \<lparr>getHashValue = (\<lambda>p. of_nat (fst p) + ucast (snd p)), isEqual = (=)\<rparr>)
     \<lparr>accessPath = ImportPathBase [\<lparr>Item = Identifier ''Bar'', Loc = SourceLoc_at 1\<rparr>],
      importedModule = 1\<rparr>
   = getHashValue (DenseMapInfo_ImportedModule \<lparr>getHashValue = (\<lambda>p. of_nat (fst p) + ucast (snd p)), isEqual = (=)\<rparr>)
     \<lparr>accessPath = ImportPathBase [\<lparr>Item = Identifier ''Bar'', Loc = SourceLoc_at 2\<rparr>],
      importedModule = 1\<rparr> \<and>
   isEqual (DenseMapInfo_ImportedModule \<lparr>getHashValue = (\<lambda>p. of_nat (fst p) + ucast (snd p)), isEqual = (=)\<rparr>)
     \<lparr>accessPath = ImportPathBase [\<lparr>Item = Identifier ''Bar'', Loc = SourceLoc_at 1\<rparr>],
      importedModule = 1\<rparr>
     \<lparr>accessPath = ImportPathBase [\<lparr>Item = Identifier ''Bar'', Loc = SourceLoc_at 2\<rparr>],
      importedModule = 1\<rparr> \<and>
   \<not> isEqual (DenseMapInfo_ImportedModule \<lparr>getHashValue = (\<lambda>p. of_nat (fst p) + ucast (snd p)), isEqual = (=)\<rparr>)
     \<lparr>accessPath = ImportPathBase [\<lparr>Item = Identifier ''Bar'', Loc = SourceLoc_at 1\<rparr>],
      importedModule = 1\<rparr>
     \<lparr>accessPath = ImportPathBase [\<lparr>Item = Identifier ''Bar'', Loc = SourceLoc_at 1\<rparr>],
      importedModule = 2\<rparr>"
  using DenseMapInfo_ImportedModule_semantic
    [of "\<lparr>accessPath = ImportPathBase [\<lparr>Item = Identifier ''Bar'', Loc = SourceLoc_at 1\<rparr>],
          importedModule = 1\<rparr>"
        "\<lparr>accessPath = ImportPathBase [\<lparr>Item = Identifier ''Bar'', Loc = SourceLoc_at 2\<rparr>],
          importedModule = 1\<rparr>"
        "\<lparr>getHashValue = (\<lambda>p. of_nat (fst p) + ucast (snd p)), isEqual = (=)\<rparr>"
        "\<lparr>accessPath = ImportPathBase [\<lparr>Item = Identifier ''Bar'', Loc = SourceLoc_at 1\<rparr>],
          importedModule = 1\<rparr>"
        "\<lparr>accessPath = ImportPathBase [\<lparr>Item = Identifier ''Bar'', Loc = SourceLoc_at 1\<rparr>],
          importedModule = 2\<rparr>"]
  by simp

subsection \<open>Attributed imports as keys of a hash table\<close>

text \<open>
  Claim C9. Two attributed imports that agree on \<^verbatim>\<open>module\<close>, \<^verbatim>\<open>importOptions\<close>
  and \<^verbatim>\<open>filename\<close> have the same hash and are equal keys, whatever their
  \<^verbatim>\<open>spiGroups\<close>. The specialisations of LLVM and of the module information are
  parameters; that a key is equal to itself under each of them (the contract of
  \<^verbatim>\<open>isEqual\<close>) is what the equality of keys needs. The witness is at
  \<^verbatim>\<open>ImportedModuleDesc\<close>, the instance the header names.
\<close>

theorem spiGroups_not_in_key:
  assumes "module a = module b"
    and "importOptions a = importOptions b"
    and "filename a = filename b"
    and "isEqual ModuleInfoDMI (module a) (module a)"
    and "isEqual UnsignedDMI (ucast (importOptions a)) (ucast (importOptions a))"
    and "isEqual StringRefDMI (filename a) (filename a)"
  shows "getHashValue (DenseMapInfo_AttributedImport combineHashValue ModuleInfoDMI UnsignedDMI StringRefDMI) a
           = getHashValue (DenseMapInfo_AttributedImport combineHashValue ModuleInfoDMI UnsignedDMI StringRefDMI) b \<and>
         isEqual (DenseMapInfo_AttributedImport combineHashValue ModuleInfoDMI UnsignedDMI StringRefDMI) a b"
  using assms
  by (simp add: DenseMapInfo_AttributedImport_def DenseMapInfo_ImportOptions_def)

theorem spiGroups_not_in_key_witness:
  "getHashValue
     (DenseMapInfo_AttributedImport (\<lambda>a b. 31 * a + b)
        (DenseMapInfo_ImportedModule
           \<lparr>getHashValue = (\<lambda>p. of_nat (fst p) + ucast (snd p)), isEqual = (=)\<rparr>)
        \<lparr>getHashValue = (\<lambda>v. ucast v * 37), isEqual = (=)\<rparr>
        \<lparr>getHashValue = (\<lambda>s. of_nat (length s)), isEqual = (=)\<rparr>)
     \<lparr>module = \<lparr>accessPath = ImportPathBase [], importedModule = 1\<rparr>,
      importOptions = 0x10, filename = ''a.swift'',
      spiGroups = [Identifier ''Testing'']\<rparr>
   = getHashValue
     (DenseMapInfo_AttributedImport (\<lambda>a b. 31 * a + b)
        (DenseMapInfo_ImportedModule
           \<lparr>getHashValue = (\<lambda>p. of_nat (fst p) + ucast (snd p)), isEqual = (=)\<rparr>)
        \<lparr>getHashValue = (\<lambda>v. ucast v * 37), isEqual = (=)\<rparr>
        \<lparr>getHashValue = (\<lambda>s. of_nat (length s)), isEqual = (=)\<rparr>)
     \<lparr>module = \<lparr>accessPath = ImportPathBase [], importedModule = 1\<rparr>,
      importOptions = 0x10, filename = ''a.swift'',
      spiGroups = [Identifier ''Internal'', Identifier ''Testing'']\<rparr> \<and>
   isEqual
     (DenseMapInfo_AttributedImport (\<lambda>a b. 31 * a + b)
        (DenseMapInfo_ImportedModule
           \<lparr>getHashValue = (\<lambda>p. of_nat (fst p) + ucast (snd p)), isEqual = (=)\<rparr>)
        \<lparr>getHashValue = (\<lambda>v. ucast v * 37), isEqual = (=)\<rparr>
        \<lparr>getHashValue = (\<lambda>s. of_nat (length s)), isEqual = (=)\<rparr>)
     \<lparr>module = \<lparr>accessPath = ImportPathBase [], importedModule = 1\<rparr>,
      importOptions = 0x10, filename = ''a.swift'',
      spiGroups = [Identifier ''Testing'']\<rparr>
     \<lparr>module = \<lparr>accessPath = ImportPathBase [], importedModule = 1\<rparr>,
      importOptions = 0x10, filename = ''a.swift'',
      spiGroups = [Identifier ''Internal'', Identifier ''Testing'']\<rparr>"
proof (rule spiGroups_not_in_key)
  let ?m = "\<lparr>accessPath = ImportPathBase [], importedModule = 1\<rparr>"
  let ?a = "\<lparr>module = ?m, importOptions = 0x10, filename = ''a.swift'',
             spiGroups = [Identifier ''Testing'']\<rparr>"
  let ?b = "\<lparr>module = ?m, importOptions = 0x10, filename = ''a.swift'',
             spiGroups = [Identifier ''Internal'', Identifier ''Testing'']\<rparr>"
  show "module ?a = module ?b" "importOptions ?a = importOptions ?b" "filename ?a = filename ?b"
    by simp_all
  show "isEqual (DenseMapInfo_ImportedModule
           \<lparr>getHashValue = (\<lambda>p. of_nat (fst p) + ucast (snd p)), isEqual = (=)\<rparr>)
          (module ?a) (module ?a)"
    by (simp add: DenseMapInfo_ImportedModule_def isSameAs_def)
  show "isEqual \<lparr>getHashValue = (\<lambda>v. ucast v * 37), isEqual = (=)\<rparr>
          (ucast (importOptions ?a) :: 8 word) (ucast (importOptions ?a))"
    by simp
  show "isEqual \<lparr>getHashValue = (\<lambda>s. of_nat (length s)), isEqual = (=)\<rparr>
          (filename ?a) (filename ?a)"
    by simp
qed

subsection \<open>Building a path from a text\<close>

lemma fields_not_Nil: "separated_fields sep s \<noteq> []"
  by (induction s) (auto split: list.splits)

lemma fields_no_separator: "sep \<notin> set s \<Longrightarrow> separated_fields sep s = [s]"
  by (induction s) auto

lemma fields_cut:
  "sep \<notin> set pre \<Longrightarrow> separated_fields sep (pre @ sep # rest) = pre # separated_fields sep rest"
  by (induction pre) auto

lemma fields_free_of_separator: "f \<in> set (separated_fields sep s) \<Longrightarrow> sep \<notin> set f"
proof (induction s arbitrary: f)
  case Nil
  then show ?case by simp
next
  case (Cons c cs)
  show ?case
  proof (cases "c = sep")
    case True
    with Cons show ?thesis by auto
  next
    case False
    obtain g gs where g: "separated_fields sep cs = g # gs"
      using fields_not_Nil [of sep cs] by (cases "separated_fields sep cs") auto
    with False Cons.prems have "f = c # g \<or> f \<in> set gs"
      by simp
    with g False Cons.IH [of g] Cons.IH [of f] show ?thesis
      by auto
  qed
qed

lemma fields_joined: "concat (map (\<lambda>f. f @ [sep]) (separated_fields sep s)) = s @ [sep]"
proof (induction s)
  case Nil
  then show ?case by simp
next
  case (Cons c cs)
  obtain g gs where g: "separated_fields sep cs = g # gs"
    using fields_not_Nil [of sep cs] by (cases "separated_fields sep cs") auto
  with Cons show ?case
    by auto
qed

lemma fields_single_empty: "separated_fields sep s = [[]] \<Longrightarrow> s = []"
proof (cases s)
  case Nil
  then show ?thesis by simp
next
  case (Cons c cs)
  assume h: "separated_fields sep s = [[]]"
  obtain g gs where g: "separated_fields sep cs = g # gs"
    using fields_not_Nil [of sep cs] by (cases "separated_fields sep cs") auto
  with h Cons show ?thesis
    by (auto split: if_splits)
qed

lemma last_fields_empty: "last (separated_fields sep s) = [] \<longleftrightarrow> s = [] \<or> last s = sep"
proof (induction s)
  case Nil
  then show ?case by simp
next
  case (Cons c cs)
  obtain g gs where g: "separated_fields sep cs = g # gs"
    using fields_not_Nil [of sep cs] by (cases "separated_fields sep cs") auto
  show ?case
  proof (cases "c = sep")
    case True
    with Cons g show ?thesis
      by auto
  next
    case False
    show ?thesis
    proof (cases "gs = []")
      case True
      have "cs = [] \<or> last cs \<noteq> sep"
      proof (cases "g = []")
        case True
        with \<open>gs = []\<close> g have "cs = []"
          by (simp add: fields_single_empty)
        then show ?thesis ..
      next
        case False
        with \<open>gs = []\<close> g Cons show ?thesis
          by simp
      qed
      with True False g show ?thesis
        by auto
    next
      case False
      with \<open>c \<noteq> sep\<close> g Cons show ?thesis
        by auto
    qed
  qed
qed

lemma tokens_at_Nil: "tokens_at sep [] = []"
  by (simp add: tokens_at_def)

lemma StringRef_split_found:
  "sep \<notin> set pre \<Longrightarrow> StringRef_split (pre @ sep # rest) sep = (pre, rest)"
proof -
  assume h: "sep \<notin> set pre"
  then have "takeWhile (\<lambda>c. c \<noteq> sep) (pre @ sep # rest) = pre"
    by (induction pre) auto
  then show ?thesis
    by (simp add: StringRef_split_def StringRef_find_def)
qed

lemma StringRef_split_not_found:
  "sep \<notin> set s \<Longrightarrow> StringRef_split s sep = (s, [])"
  by (simp add: StringRef_split_def StringRef_find_def)

lemma tokens_at_step:
  assumes "s \<noteq> []"
  shows "tokens_at sep s
           = fst (StringRef_split s sep) # tokens_at sep (snd (StringRef_split s sep))"
proof (cases "sep \<in> set s")
  case False
  with assms show ?thesis
    by (simp add: StringRef_split_not_found tokens_at_def fields_no_separator)
next
  case True
  then obtain pre rest where s: "s = pre @ sep # rest" and pre: "sep \<notin> set pre"
    by (auto dest: split_list_first)
  have "last (pre # separated_fields sep rest) = last (separated_fields sep rest)"
    by (simp add: fields_not_Nil)
  moreover have "butlast (pre # separated_fields sep rest) = pre # butlast (separated_fields sep rest)"
    by (simp add: fields_not_Nil)
  ultimately show ?thesis
    using pre by (simp add: s StringRef_split_found fields_cut tokens_at_def Let_def)
qed

lemma split_loop_tokens:
  "ImportPathBuilder_split_loop ctx s sep b =
     (ImportPathBuilder
        (scratch b @ map (\<lambda>tok. \<lparr>Item = Identifier tok, Loc = SourceLoc_invalid\<rparr>) (tokens_at sep s)),
      ctx\<lparr>IdentifierTable := IdentifierTable ctx \<union> set (tokens_at sep s)\<rparr>)"
proof (induction ctx s sep b rule: ImportPathBuilder_split_loop.induct)
  case (1 ctx s sep b)
  show ?case
  proof (cases "s = []")
    case True
    then show ?thesis
      by (simp add: tokens_at_Nil ImportPathBuilder_split_loop.simps [of ctx "[]"])
  next
    case False
    let ?pieces = "StringRef_split s sep"
    let ?interned = "ImportPathBuilder_getIdentifierImpl ctx (fst ?pieces)"
    have "ImportPathBuilder_split_loop ctx s sep b
            = ImportPathBuilder_split_loop (snd ?interned) (snd ?pieces) sep
                (push_back_name b (fst ?interned) SourceLoc_invalid)"
      using False by (subst ImportPathBuilder_split_loop.simps) (simp add: Let_def)
    also note "1.IH" [OF False refl refl]
    finally show ?thesis
      by (simp add: tokens_at_step [OF False, of sep]
          ImportPathBuilder_getIdentifierImpl_def push_back_name_def)
  qed
qed

text \<open>
  Claim C8. For every text and separator the constructor from a text returns: the loop
  terminates, and nothing in it can fail. The elements it appends are the tokens of the
  text at the separator, in order, each interned as it is (an empty token too) and each
  with the invalid source location; every token is entered in the context's table. The
  tokens are free of the separator, and written one after the other, each followed by the
  separator, they give the text back (with one separator more when the text does not end
  with one).
\<close>

theorem ImportPathBuilder_text_interns_tokens:
  "scratch (fst (ImportPathBuilder_text ctx s sep))
     = map (\<lambda>tok. \<lparr>Item = Identifier tok, Loc = SourceLoc_invalid\<rparr>) (tokens_at sep s) \<and>
   IdentifierTable (snd (ImportPathBuilder_text ctx s sep))
     = IdentifierTable ctx \<union> set (tokens_at sep s) \<and>
   (\<forall>tok \<in> set (tokens_at sep s). sep \<notin> set tok) \<and>
   concat (map (\<lambda>tok. tok @ [sep]) (tokens_at sep s))
     = (if s = [] \<or> last s = sep then s else s @ [sep])"
proof (intro conjI)
  show "scratch (fst (ImportPathBuilder_text ctx s sep))
     = map (\<lambda>tok. \<lparr>Item = Identifier tok, Loc = SourceLoc_invalid\<rparr>) (tokens_at sep s)"
    by (simp add: ImportPathBuilder_text_def split_loop_tokens)
  show "IdentifierTable (snd (ImportPathBuilder_text ctx s sep))
     = IdentifierTable ctx \<union> set (tokens_at sep s)"
    by (simp add: ImportPathBuilder_text_def split_loop_tokens)
  show "\<forall>tok \<in> set (tokens_at sep s). sep \<notin> set tok"
    by (auto simp: tokens_at_def Let_def fields_free_of_separator
        dest: in_set_butlastD split: if_splits)
  show "concat (map (\<lambda>tok. tok @ [sep]) (tokens_at sep s))
     = (if s = [] \<or> last s = sep then s else s @ [sep])"
  proof (cases "last (separated_fields sep s) = []")
    case True
    define B where "B = butlast (separated_fields sep s)"
    from True have fs: "separated_fields sep s = B @ [[]]"
      using fields_not_Nil [of sep s] append_butlast_last_id [of "separated_fields sep s"]
      by (simp add: B_def)
    have "concat (map (\<lambda>f. f @ [sep]) (B @ [[]])) = s @ [sep]"
      using fields_joined [of sep s] by (simp only: fs)
    then have "concat (map (\<lambda>f. f @ [sep]) (butlast (separated_fields sep s))) = s"
      by (simp add: B_def)
    with True show ?thesis
      by (simp add: tokens_at_def last_fields_empty [symmetric])
  next
    case False
    then show ?thesis
      by (simp add: tokens_at_def fields_joined last_fields_empty [symmetric])
  qed
qed


theorem ImportPathBuilder_text_interns_tokens_witness:
  "scratch (fst (ImportPathBuilder_text \<lparr>IdentifierTable = {''Swift''}\<rparr> ''Foo..B r.'' CHR ''.''
                   :: ImportPath_tag ImportPathBuilder \<times> ASTContext))
     = [\<lparr>Item = Identifier ''Foo'', Loc = SourceLoc_invalid\<rparr>,
        \<lparr>Item = Identifier [], Loc = SourceLoc_invalid\<rparr>,
        \<lparr>Item = Identifier ''B r'', Loc = SourceLoc_invalid\<rparr>] \<and>
   IdentifierTable (snd (ImportPathBuilder_text \<lparr>IdentifierTable = {''Swift''}\<rparr> ''Foo..B r.'' CHR ''.''
                   :: ImportPath_tag ImportPathBuilder \<times> ASTContext))
     = {''Swift'', ''Foo'', [], ''B r''} \<and>
   concat (map (\<lambda>tok. tok @ ''.'') (tokens_at CHR ''.'' ''Foo..B r.'')) = ''Foo..B r.''"
  using ImportPathBuilder_text_interns_tokens
    [of "\<lparr>IdentifierTable = {''Swift''}\<rparr>" "''Foo..B r.''" "CHR ''.''",
     where ?'a = ImportPath_tag]
  by (simp add: tokens_at_def insert_commute)


end
